theory Spec2Isabelle
  imports Main
begin

section \<open>Service detail page: the window statistics of loadStatistics\<close>

text \<open>
  The service detail script fetches the reports of one service
  (\<^verbatim>\<open>/api/reports/SERVICE_ID?hours=24\<close>) and counts them over three trailing windows:
  \<^verbatim>\<open>
  const now = new Date();
  const oneHourAgo = new Date(now - 60 * 60 * 1000);
  const sixHoursAgo = new Date(now - 6 * 60 * 60 * 1000);
  const lastHour = reports.filter(r => new Date(r.timestamp) >= oneHourAgo).length;
  const last6Hours = reports.filter(r => new Date(r.timestamp) >= sixHoursAgo).length;
  const last24Hours = reports.length;
  \<close>
  Times are milliseconds since the epoch, as the values of JavaScript dates are. The
  clock reading \<open>now\<close> is a valid date far inside the range of dates, so the two
  window starts are the plain differences. A report's \<open>timestamp\<close> is the value of
  \<^verbatim>\<open>new Date(r.timestamp)\<close>: \<open>None\<close> stands for an invalid date, whose value is
  NaN and which compares false with everything. The function below is the body of the
  \<^verbatim>\<open>try\<close> block on a response that is an array of reports; on any other response the
  \<^verbatim>\<open>catch\<close> block logs the error and the three counts on the page stay as they were.
\<close>

type_synonym millis = int

record report =
  service_id :: int
  timestamp :: "millis option"
  location :: "string option"
  description :: "string option"
  latitude :: "int option"
  longitude :: "int option"

text \<open>\<^verbatim>\<open>new Date(r.timestamp) >= bound\<close>, the comparison of the two filters.\<close>

definition date_ge :: "millis option \<Rightarrow> millis \<Rightarrow> bool" where
  "date_ge d bound = (case d of None \<Rightarrow> False | Some t \<Rightarrow> bound \<le> t)"

record statistics =
  lastHour :: nat
  last6Hours :: nat
  last24Hours :: nat

definition loadStatistics :: "millis \<Rightarrow> report list \<Rightarrow> statistics" where
  "loadStatistics now reports =
     (let oneHourAgo = now - 60 * 60 * 1000;
          sixHoursAgo = now - 6 * 60 * 60 * 1000
      in \<lparr> lastHour = length (filter (\<lambda>r. date_ge (timestamp r) oneHourAgo) reports),
           last6Hours = length (filter (\<lambda>r. date_ge (timestamp r) sixHoursAgo) reports),
           last24Hours = length reports \<rparr>)"

text \<open>
  The two readings of the one-hour window that the statements below compare: every valid
  timestamp from \<open>now - 1h\<close> on, that instant included and with no bound at \<open>now\<close>,
  and the window \<open>now - 1h < t < now\<close> that excludes both ends.
\<close>

definition from_one_hour_ago :: "millis \<Rightarrow> report \<Rightarrow> bool" where
  "from_one_hour_ago now r =
     (case timestamp r of None \<Rightarrow> False | Some t \<Rightarrow> now - 3600000 \<le> t)"

definition strictly_within_last_hour :: "millis \<Rightarrow> report \<Rightarrow> bool" where
  "strictly_within_last_hour now r =
     (case timestamp r of None \<Rightarrow> False | Some t \<Rightarrow> now - 3600000 < t \<and> t < now)"

definition report_at :: "millis \<Rightarrow> report" where
  "report_at t = \<lparr> service_id = 1, timestamp = Some t, location = None,
                   description = None, latitude = None, longitude = None \<rparr>"

section \<open>Dashboard: the status text of refreshDashboard\<close>

text \<open>
  \<^verbatim>\<open>service.status\<close> comes out of a JSON response, so it is any JavaScript value; the
  two tests of the source use strict equality with a string literal, which holds for
  that very string only.
  \<^verbatim>\<open>
  let statusIcon = 'check';
  let statusClass = 'text-success';
  let statusLabel = 'Operational';
  if (service.status === 'issues') {
      statusIcon = 'alert-triangle'; statusClass = 'text-warning'; statusLabel = 'Issues';
  } else if (service.status === 'down') {
      statusIcon = 'x'; statusClass = 'text-danger'; statusLabel = 'Down';
  }
  \<close>
\<close>

datatype js_value =
  JUndefined | JNull | JBoolean bool | JNumber int | JString string

record status_text =
  statusIcon :: string
  statusClass :: string
  statusLabel :: string

definition strict_eq_string :: "js_value \<Rightarrow> string \<Rightarrow> bool" where
  "strict_eq_string v s = (case v of JString t \<Rightarrow> t = s | _ \<Rightarrow> False)"

definition refreshDashboard_statusText :: "js_value \<Rightarrow> status_text" where
  "refreshDashboard_statusText status =
     (if strict_eq_string status ''issues'' then
        \<lparr> statusIcon = ''alert-triangle'', statusClass = ''text-warning'',
          statusLabel = ''Issues'' \<rparr>
      else if strict_eq_string status ''down'' then
        \<lparr> statusIcon = ''x'', statusClass = ''text-danger'', statusLabel = ''Down'' \<rparr>
      else
        \<lparr> statusIcon = ''check'', statusClass = ''text-success'',
          statusLabel = ''Operational'' \<rparr>)"

section \<open>The database schema: services, outage reports and their referential actions\<close>

text \<open>
  The tables of \<^verbatim>\<open>database_schema_optimized.sql\<close> that outage reports depend on, a row
  as a record with one field per column. A nullable column is an \<open>option\<close>,
  \<^verbatim>\<open>TIMESTAMP WITH TIME ZONE\<close> is milliseconds, \<^verbatim>\<open>DECIMAL(10, 8)\<close> and
  \<^verbatim>\<open>DECIMAL(11, 8)\<close> are the number scaled by \<open>10 ^ 8\<close>, \<^verbatim>\<open>VARCHAR\<close>, \<^verbatim>\<open>TEXT\<close> and
  \<^verbatim>\<open>INET\<close> are strings. The columns of a table carry a prefix, since the tables share
  column names: \<open>us_\<close> for \<^verbatim>\<open>users\<close>, \<open>sv_\<close> for \<^verbatim>\<open>services\<close>, \<open>or_\<close> for
  \<^verbatim>\<open>outage_reports\<close>. The other tables are left out: \<^verbatim>\<open>outage_reports\<close> references
  \<^verbatim>\<open>services\<close> and \<^verbatim>\<open>users\<close> only, so no referential action of another table
  reaches a report.
\<close>

record user_row =
  us_id :: int
  us_username :: string
  us_email :: string
  us_password_hash :: string
  us_full_name :: "string option"
  us_is_admin :: "bool option"
  us_is_active :: "bool option"
  us_created_at :: "millis option"
  us_updated_at :: "millis option"
  us_last_login :: "millis option"

record service =
  sv_id :: int
  sv_type_id :: int
  sv_subtype_id :: "int option"
  sv_name :: string
  sv_description :: "string option"
  sv_url :: "string option"
  sv_company :: "string option"
  sv_logo_url :: "string option"
  sv_icon_path :: "string option"
  sv_current_status :: "string option"
  sv_last_checked :: "millis option"
  sv_response_time :: "int option"
  sv_is_active :: "bool option"
  sv_priority :: "int option"
  sv_created_at :: "millis option"
  sv_updated_at :: "millis option"

record outage_report =
  or_id :: int
  or_service_id :: int
  or_user_id :: "int option"
  or_type :: "string option"
  or_title :: "string option"
  or_description :: "string option"
  or_country :: "string option"
  or_region :: "string option"
  or_city :: "string option"
  or_latitude :: "int option"
  or_longitude :: "int option"
  or_user_ip :: "string option"
  or_user_agent :: "string option"
  or_source :: "string option"
  or_severity :: "string option"
  or_status :: "string option"
  or_resolved_at :: "millis option"
  or_created_at :: "millis option"
  or_updated_at :: "millis option"

record database =
  users :: "user_row list"
  services :: "service list"
  outage_reports :: "outage_report list"

text \<open>
  \<^verbatim>\<open>INSERT INTO services (type_id, name, url)\<close>: the row a new service gets when only
  these columns are given, every other column at its declared default
  (\<^verbatim>\<open>current_status VARCHAR(20) DEFAULT 'up'\<close>, \<^verbatim>\<open>is_active BOOLEAN DEFAULT TRUE\<close>,
  \<^verbatim>\<open>priority INTEGER DEFAULT 1\<close>, the two timestamps \<^verbatim>\<open>DEFAULT CURRENT_TIMESTAMP\<close>)
  or NULL. The serial \<open>id\<close> is a parameter.
\<close>

definition insert_service_row :: "millis \<Rightarrow> int \<Rightarrow> int \<Rightarrow> string \<Rightarrow> string option \<Rightarrow> service" where
  "insert_service_row now new_id type_id name url =
     \<lparr> sv_id = new_id, sv_type_id = type_id, sv_subtype_id = None, sv_name = name,
       sv_description = None, sv_url = url, sv_company = None, sv_logo_url = None,
       sv_icon_path = None, sv_current_status = Some ''up'', sv_last_checked = None,
       sv_response_time = None, sv_is_active = Some True, sv_priority = Some 1,
       sv_created_at = Some now, sv_updated_at = Some now \<rparr>"

text \<open>
  The trigger function of \<^verbatim>\<open>update_outage_reports_updated_at BEFORE UPDATE ON
  outage_reports FOR EACH ROW\<close>: \<^verbatim>\<open>NEW.updated_at = CURRENT_TIMESTAMP; RETURN NEW;\<close>
\<close>

definition update_updated_at :: "millis \<Rightarrow> outage_report \<Rightarrow> outage_report" where
  "update_updated_at now new = new\<lparr>or_updated_at := Some now\<rparr>"

text \<open>
  \<^verbatim>\<open>DELETE FROM services WHERE id = sid\<close>. The reports of the service go with it:
  \<^verbatim>\<open>service_id INTEGER NOT NULL REFERENCES services(id) ON DELETE CASCADE\<close>.
\<close>

definition delete_service :: "int \<Rightarrow> database \<Rightarrow> database" where
  "delete_service sid db =
     db\<lparr> services := filter (\<lambda>s. sv_id s \<noteq> sid) (services db),
         outage_reports := filter (\<lambda>r. or_service_id r \<noteq> sid) (outage_reports db) \<rparr>"

text \<open>
  \<^verbatim>\<open>DELETE FROM users WHERE id = uid\<close>. The reports of the user stay, with their
  reference cleared: \<^verbatim>\<open>user_id INTEGER REFERENCES users(id) ON DELETE SET NULL\<close>. The
  referential action is an update of the referencing rows, so the row trigger of the
  table runs on each of them.
\<close>

definition delete_user :: "millis \<Rightarrow> int \<Rightarrow> database \<Rightarrow> database" where
  "delete_user now uid db =
     db\<lparr> users := filter (\<lambda>u. us_id u \<noteq> uid) (users db),
         outage_reports :=
           map (\<lambda>r. if or_user_id r = Some uid
                     then update_updated_at now (r\<lparr>or_user_id := None\<rparr>) else r)
               (outage_reports db) \<rparr>"



text \<open>
  A database for the examples: two users, two services, and one report of each user,
  the first on the first service and the second on the second.
\<close>

definition example_report :: outage_report where
  "example_report =
     \<lparr> or_id = 1, or_service_id = 1, or_user_id = Some 7, or_type = Some ''user_report'',
       or_title = None, or_description = Some ''login fails'', or_country = None,
       or_region = None, or_city = None, or_latitude = None, or_longitude = None,
       or_user_ip = Some ''203.0.113.9'', or_user_agent = None, or_source = None,
       or_severity = Some ''medium'', or_status = Some ''open'', or_resolved_at = None,
       or_created_at = Some 1700000000000, or_updated_at = Some 1700000000000 \<rparr>"

definition other_report :: outage_report where
  "other_report =
     \<lparr> or_id = 2, or_service_id = 2, or_user_id = Some 8, or_type = Some ''user_report'',
       or_title = None, or_description = Some ''no video'', or_country = None,
       or_region = None, or_city = None, or_latitude = Some 4071280000,
       or_longitude = Some (- 7400600000), or_user_ip = Some ''198.51.100.4'',
       or_user_agent = None, or_source = None, or_severity = Some ''medium'',
       or_status = Some ''open'', or_resolved_at = None,
       or_created_at = Some 1700000100000, or_updated_at = Some 1700000100000 \<rparr>"

definition example_user :: "int \<Rightarrow> string \<Rightarrow> user_row" where
  "example_user uid uname =
     \<lparr> us_id = uid, us_username = uname, us_email = uname @ ''@example.org'',
       us_password_hash = ''x'', us_full_name = None, us_is_admin = Some False,
       us_is_active = Some True, us_created_at = Some 1600000000000,
       us_updated_at = Some 1600000000000, us_last_login = None \<rparr>"

definition example_database :: database where
  "example_database =
     \<lparr> users = [example_user 7 ''ana'', example_user 8 ''ben''],
       services = [insert_service_row 1650000000000 1 10 ''Discord'' None,
                   insert_service_row 1650000000000 2 10 ''YouTube'' None],
       outage_reports = [example_report, other_report] \<rparr>"

section \<open>The status engine, modelled from the specification\<close>

text \<open>
  The server side of the repository (the Flask routes behind \<^verbatim>\<open>/api/report\<close>,
  \<^verbatim>\<open>/api/reports\<close> and \<^verbatim>\<open>/api/services\<close>) is not among the source files. Its classifier,
  status cache and report listing are modelled here from the specification; the
  README of the repository states the same thresholds (fewer than 2 reports in the last
  hour operational, 2 to 4 some issues, 5 or more down).
\<close>

text \<open>
  Modelled from the spec: the status enum of section 3 and the names of its three
  values in the event payloads and in the \<open>current_status\<close> column.
\<close>

datatype status = Up | Issues | Down


record window_counts =
  count_1h :: nat
  count_6h :: nat
  count_24h :: nat

text \<open>
  Modelled from the spec: the window of the Status Classifier (section 4.2), a trailing
  window of \<open>h\<close> hours before \<open>now\<close>, with the boundary rule that a report stamped
  exactly at the start of the window is excluded, and \<open>now\<close> itself outside.
\<close>

definition in_window :: "millis \<Rightarrow> int \<Rightarrow> millis \<Rightarrow> bool" where
  "in_window now h t = (now - h * 3600000 < t \<and> t < now)"

text \<open>
  Modelled from the spec: the counts over the three fixed windows of section 4.2 (last
  hour, last 6 hours, last 24 hours), from \<open>now\<close> and a service's report timestamps.
\<close>

definition windowCounts :: "millis \<Rightarrow> millis list \<Rightarrow> window_counts" where
  "windowCounts now ts =
     \<lparr> count_1h = length (filter (in_window now 1) ts),
       count_6h = length (filter (in_window now 6) ts),
       count_24h = length (filter (in_window now 24) ts) \<rparr>"

text \<open>
  Modelled from the spec: the thresholds of section 4.2, on the one-hour count:
  count < 2 is up, 2 \<le> count \<le> 4 is issues, count \<ge> 5 is down.
\<close>

definition classify_counts :: "window_counts \<Rightarrow> status" where
  "classify_counts c =
     (if count_1h c < 2 then Up else if count_1h c \<le> 4 then Issues else Down)"

text \<open>
  Modelled from the spec: the classifier as the pure function of \<open>now\<close> and a service's
  report timestamps.
\<close>

definition classify :: "millis \<Rightarrow> millis list \<Rightarrow> status" where
  "classify now ts = classify_counts (windowCounts now ts)"









section \<open>Listing reports, modelled from the specification\<close>

text \<open>
  Modelled from the spec: a report of the Report Store (section 3), with its identity,
  owning service, server-assigned creation timestamp and origin address. The route
  behind \<^verbatim>\<open>/api/reports\<close> is not among the source files.
\<close>

record stored_report =
  ident :: nat
  owner :: int
  created :: millis
  origin :: string

text \<open>
  Modelled from the spec: \<open>list reports\<close> (section 6), input a service and an optional
  \<open>hoursLookback\<close>, output the report records of the service, newest first. Without a
  lookback every report of the service is listed.
\<close>

definition list_reports :: "millis \<Rightarrow> int \<Rightarrow> int option \<Rightarrow> stored_report list \<Rightarrow> stored_report list" where
  "list_reports now serviceId hoursLookback store =
     rev (sort_key created
       (filter (\<lambda>r. owner r = serviceId \<and>
                     (case hoursLookback of None \<Rightarrow> True
                      | Some h \<Rightarrow> in_window now h (created r)))
          store))"

text \<open>
  The prefix that \<open>loadReports\<close> of the service detail page shows:
  \<^verbatim>\<open>updateRecentReports(reports.slice(0, 10)); // Show last 10 reports\<close>
\<close>

definition loadReports_recent :: "'a list \<Rightarrow> 'a list" where
  "loadReports_recent reports = take 10 reports"

definition example_store :: "stored_report list" where
  "example_store =
     [\<lparr> ident = 1, owner = 1, created = 1000, origin = ''198.51.100.1'' \<rparr>,
      \<lparr> ident = 2, owner = 2, created = 1500, origin = ''198.51.100.2'' \<rparr>,
      \<lparr> ident = 3, owner = 1, created = 3000, origin = ''198.51.100.3'' \<rparr>,
      \<lparr> ident = 4, owner = 1, created = 2000, origin = ''198.51.100.1'' \<rparr>]"

section \<open>Properties of the window statistics\<close>

lemma date_ge_mono: "date_ge d b \<Longrightarrow> b' \<le> b \<Longrightarrow> date_ge d b'"
  by (cases d) (simp_all add: date_ge_def)

lemma length_filter_mono:
  "(\<And>x. x \<in> set xs \<Longrightarrow> P x \<Longrightarrow> Q x) \<Longrightarrow> length (filter P xs) \<le> length (filter Q xs)"
proof (induction xs)
  case Nil
  show ?case by simp
next
  case (Cons x xs)
  have step: "length (filter P xs) \<le> length (filter Q xs)"
    using Cons by simp
  show ?case
  proof (cases "P x")
    case True
    then have "Q x" using Cons.prems by simp
    with True step show ?thesis by simp
  next
    case False
    with step show ?thesis by simp
  qed
qed

text \<open>
  C9. The three counts of \<open>loadStatistics\<close> are monotone over the nested windows, for
  every report list and every clock reading: the one-hour count is at most the six-hour
  count, which is at most the 24-hour count. The 24-hour count is the length of the
  whole list, and a report that passes the one-hour filter passes the six-hour filter.
\<close>

theorem loadStatistics_counts_nested:
  "lastHour (loadStatistics now reports) \<le> last6Hours (loadStatistics now reports) \<and>
   last6Hours (loadStatistics now reports) \<le> last24Hours (loadStatistics now reports)"
proof -
  have "length (filter (\<lambda>r. date_ge (timestamp r) (now - 60 * 60 * 1000)) reports)
        \<le> length (filter (\<lambda>r. date_ge (timestamp r) (now - 6 * 60 * 60 * 1000)) reports)"
    by (rule length_filter_mono) (erule date_ge_mono, simp)
  then show ?thesis
    by (simp add: loadStatistics_def Let_def)
qed

text \<open>
  C2 as the spec has it fails: the one-hour count is not the number of reports with
  \<open>now - 1h < t < now\<close>. A single report stamped exactly one hour before \<open>now\<close> is
  counted by \<open>loadStatistics\<close>.
\<close>

theorem loadStatistics_boundary_counterexample:
  "lastHour (loadStatistics 1700003600000 [report_at 1700000000000]) = 1 \<and>
   length (filter (strictly_within_last_hour 1700003600000) [report_at 1700000000000]) = 0"
  by (simp add: loadStatistics_def Let_def date_ge_def report_at_def
      strictly_within_last_hour_def)

text \<open>
  C2, amended. For every report list and every clock reading the one-hour count of
  \<open>loadStatistics\<close> is the number of reports whose timestamp is a valid date with
  \<open>now - 1h \<le> t\<close>: the left end of the window is included, so a report stamped exactly
  at \<open>now - 1h\<close> is counted, and there is no upper bound. The count is a function of
  the clock reading and the report list alone.
\<close>

theorem loadStatistics_lastHour_window:
  "lastHour (loadStatistics now reports) = length (filter (from_one_hour_ago now) reports) \<and>
   lastHour (loadStatistics now [report_at (now - 3600000)]) = 1"
proof -
  have "(\<lambda>r. date_ge (timestamp r) (now - 60 * 60 * 1000)) = from_one_hour_ago now"
    by (rule ext) (simp add: date_ge_def from_one_hour_ago_def)
  then show ?thesis
    by (simp add: loadStatistics_def Let_def date_ge_def report_at_def)
qed

section \<open>Properties of the schema's referential actions\<close>

text \<open>
  C6 as the spec has it fails: a stored report is not immutable. Deleting the user who
  filed it rewrites the report, clearing its \<open>user_id\<close> and restamping its
  \<open>updated_at\<close>; the report itself stays in the table, and the report of the other
  user is untouched.
\<close>

theorem delete_user_rewrites_report_counterexample:
  "outage_reports (delete_user 1700000500000 7 example_database)
     = [example_report\<lparr>or_user_id := None, or_updated_at := Some 1700000500000\<rparr>,
        other_report] \<and>
   outage_reports (delete_user 1700000500000 7 example_database)
     \<noteq> outage_reports example_database"
  by (simp add: delete_user_def example_database_def example_report_def
      other_report_def update_updated_at_def)

lemma delete_user_length:
  "length (outage_reports (delete_user now uid db)) = length (outage_reports db)"
  by (simp add: delete_user_def)

lemma delete_user_nth:
  assumes "i < length (outage_reports db)"
  shows "outage_reports (delete_user now uid db) ! i =
     (if or_user_id (outage_reports db ! i) = Some uid
      then (outage_reports db ! i)\<lparr>or_user_id := None, or_updated_at := Some now\<rparr>
      else outage_reports db ! i)"
  using assms by (simp add: delete_user_def update_updated_at_def)

lemma delete_service_member:
  "(r \<in> set (outage_reports (delete_service sid db)))
     = (r \<in> set (outage_reports db) \<and> or_service_id r \<noteq> sid)"
  by (simp add: delete_service_def)

text \<open>
  C6, amended. Under the referential actions of the schema a stored report is deleted
  by the deletion cascade of its owning service only, and it never moves between
  services. Deleting a service removes exactly the reports of that service: the
  reports left are those of the other services, each as it was and in their order.
  Deleting a user removes no report; at every position of the table the report of
  another user, or of none, stays as it was in every column, and a report of the deleted
  user stays as it was in every column but two, \<open>user_id\<close>, which becomes NULL, and
  \<open>updated_at\<close>, which the update trigger sets to the time of the deletion. After the
  deletion no report refers to the deleted user.
\<close>

theorem referential_actions_on_reports:
  "outage_reports (delete_service sid db)
     = filter (\<lambda>r. or_service_id r \<noteq> sid) (outage_reports db) \<and>
   (r \<in> set (outage_reports (delete_service sid db)))
     = (r \<in> set (outage_reports db) \<and> or_service_id r \<noteq> sid) \<and>
   length (outage_reports (delete_user now uid db)) = length (outage_reports db) \<and>
   (\<forall>i < length (outage_reports db).
      outage_reports (delete_user now uid db) ! i =
        (if or_user_id (outage_reports db ! i) = Some uid
         then (outage_reports db ! i)\<lparr>or_user_id := None, or_updated_at := Some now\<rparr>
         else outage_reports db ! i)) \<and>
   (\<forall>i < length (outage_reports db).
      or_service_id (outage_reports (delete_user now uid db) ! i)
        = or_service_id (outage_reports db ! i)) \<and>
   (\<forall>q \<in> set (outage_reports (delete_user now uid db)). or_user_id q \<noteq> Some uid)"
proof -
  have cascade: "outage_reports (delete_service sid db)
      = filter (\<lambda>r. or_service_id r \<noteq> sid) (outage_reports db)"
    by (simp add: delete_service_def)
  have rewritten: "\<forall>i < length (outage_reports db).
      outage_reports (delete_user now uid db) ! i =
        (if or_user_id (outage_reports db ! i) = Some uid
         then (outage_reports db ! i)\<lparr>or_user_id := None, or_updated_at := Some now\<rparr>
         else outage_reports db ! i)"
    using delete_user_nth by blast
  have same_service: "\<forall>i < length (outage_reports db).
      or_service_id (outage_reports (delete_user now uid db) ! i)
        = or_service_id (outage_reports db ! i)"
  proof (intro allI impI)
    fix i assume "i < length (outage_reports db)"
    then show "or_service_id (outage_reports (delete_user now uid db) ! i)
        = or_service_id (outage_reports db ! i)"
      by (simp add: delete_user_nth)
  qed
  have unlinked: "\<forall>q \<in> set (outage_reports (delete_user now uid db)). or_user_id q \<noteq> Some uid"
    by (auto simp: delete_user_def update_updated_at_def)
  from cascade delete_service_member [of r sid db] delete_user_length [of now uid db]
    rewritten same_service unlinked
  show ?thesis by blast
qed

theorem referential_actions_on_reports_witness:
  "length (outage_reports example_database) = 2 \<and>
   or_user_id (outage_reports example_database ! 0) = Some 7 \<and>
   or_user_id (outage_reports example_database ! 1) = Some 8 \<and>
   outage_reports (delete_user 1700000500000 7 example_database) ! 0
     = example_report\<lparr>or_user_id := None, or_updated_at := Some 1700000500000\<rparr> \<and>
   outage_reports (delete_user 1700000500000 7 example_database) ! 1 = other_report \<and>
   outage_reports (delete_service 1 example_database) = [other_report]"
proof -
  have len: "length (outage_reports example_database) = 2"
    by (simp add: example_database_def)
  have r0: "outage_reports example_database ! 0 = example_report"
    by (simp add: example_database_def)
  have r1: "outage_reports example_database ! 1 = other_report"
    by (simp add: example_database_def)
  have u0: "or_user_id example_report = Some 7"
    by (simp add: example_report_def)
  have u1: "or_user_id other_report = Some 8"
    by (simp add: other_report_def)
  have s0: "or_service_id example_report = 1"
    by (simp add: example_report_def)
  have s1: "or_service_id other_report = 2"
    by (simp add: other_report_def)
  note facts = referential_actions_on_reports
    [where sid = 1 and db = example_database and r = example_report
       and now = 1700000500000 and uid = 7]
  have casc: "outage_reports (delete_service 1 example_database)
     = filter (\<lambda>r. or_service_id r \<noteq> 1) (outage_reports example_database)"
    by (rule conjunct1 [OF facts])
  have rew: "\<forall>i < length (outage_reports example_database).
      outage_reports (delete_user 1700000500000 7 example_database) ! i =
        (if or_user_id (outage_reports example_database ! i) = Some 7
         then (outage_reports example_database ! i)
                \<lparr>or_user_id := None, or_updated_at := Some 1700000500000\<rparr>
         else outage_reports example_database ! i)"
    by (rule conjunct1 [OF conjunct2 [OF conjunct2 [OF conjunct2 [OF facts]]]])
  have lt0: "0 < length (outage_reports example_database)"
    using len by simp
  have lt1: "1 < length (outage_reports example_database)"
    using len by simp
  have at0: "outage_reports (delete_user 1700000500000 7 example_database) ! 0
     = example_report\<lparr>or_user_id := None, or_updated_at := Some 1700000500000\<rparr>"
    using mp [OF spec [OF rew] lt0] by (simp only: r0 u0 refl if_True)
  have at1: "outage_reports (delete_user 1700000500000 7 example_database) ! 1 = other_report"
    using mp [OF spec [OF rew] lt1] unfolding r1 u1 by simp
  have gone: "outage_reports (delete_service 1 example_database) = [other_report]"
    unfolding casc by (simp add: example_database_def s0 s1)
  show ?thesis
    by (intro conjI) (rule len, simp only: r0 u0, simp only: r1 u1, rule at0, rule at1,
        rule gone)
qed

section \<open>Properties of the status engine\<close>

text \<open>
  C1. The classifier returns up when the one-hour count is less than 2, issues when it
  is between 2 and 4 inclusive, and down when it is 5 or more, for every count; exactly
  2 gives issues and exactly 5 gives down; the six-hour and 24-hour counts do not
  change the result, so the status of a service is decided by the number of its
  reports inside the one-hour window alone.
\<close>

theorem classify_counts_thresholds:
  "(classify_counts c = Up) = (count_1h c < 2) \<and>
   (classify_counts c = Issues) = (2 \<le> count_1h c \<and> count_1h c \<le> 4) \<and>
   (classify_counts c = Down) = (5 \<le> count_1h c) \<and>
   classify_counts (c\<lparr>count_1h := 2\<rparr>) = Issues \<and>
   classify_counts (c\<lparr>count_1h := 5\<rparr>) = Down \<and>
   classify_counts (c\<lparr>count_6h := a, count_24h := b\<rparr>) = classify_counts c \<and>
   classify now ts =
     (if length (filter (in_window now 1) ts) < 2 then Up
      else if length (filter (in_window now 1) ts) \<le> 4 then Issues else Down)"
  by (auto simp: classify_counts_def classify_def windowCounts_def)










section \<open>Properties of the report listing\<close>

lemma newest_first_sort_key:
  "sorted_wrt (\<lambda>a b. created b \<le> created a) (rev (sort_key created xs))"
proof -
  have "sorted (map created (sort_key created xs))"
    by (rule sorted_sort_key)
  then have "sorted_wrt (\<lambda>a b. created a \<le> created b) (sort_key created xs)"
    by (simp add: sorted_map)
  then show ?thesis
    by (simp add: sorted_wrt_rev)
qed

lemma newest_first_list_reports:
  "sorted_wrt (\<lambda>a b. created b \<le> created a) (list_reports now sid h store)"
  unfolding list_reports_def by (rule newest_first_sort_key)

lemma prefix_is_most_recent:
  assumes "sorted_wrt (\<lambda>a b. created b \<le> created a) xs"
  shows "\<forall>a \<in> set (take n xs). \<forall>b \<in> set (drop n xs). created b \<le> created a"
proof -
  from assms have "sorted_wrt (\<lambda>a b. created b \<le> created a) (take n xs @ drop n xs)"
    by simp
  then show ?thesis
    unfolding sorted_wrt_append by blast
qed

text \<open>
  C8. For every service and every \<open>hoursLookback\<close>, \<open>list reports\<close> returns the
  reports of the service (those inside the lookback window when one is given) sorted
  newest first, with non-increasing timestamps, so that every report of a prefix of the
  sequence, in particular of the ten that the detail page shows, is at least as recent
  as every report after the prefix.
\<close>

theorem list_reports_newest_first:
  "sorted_wrt (\<lambda>a b. created b \<le> created a) (list_reports now sid h store) \<and>
   set (list_reports now sid h store)
     = {r \<in> set store. owner r = sid \<and>
          (case h of None \<Rightarrow> True | Some k \<Rightarrow> in_window now k (created r))} \<and>
   (\<forall>a \<in> set (take n (list_reports now sid h store)).
      \<forall>b \<in> set (drop n (list_reports now sid h store)). created b \<le> created a) \<and>
   (\<forall>a \<in> set (loadReports_recent (list_reports now sid h store)).
      \<forall>b \<in> set (drop 10 (list_reports now sid h store)). created b \<le> created a)"
proof -
  have members: "set (list_reports now sid h store)
     = {r \<in> set store. owner r = sid \<and>
          (case h of None \<Rightarrow> True | Some k \<Rightarrow> in_window now k (created r))}"
    by (simp add: list_reports_def)
  show ?thesis
    using newest_first_list_reports [of now sid h store] members
      prefix_is_most_recent [OF newest_first_list_reports, of n now sid h store]
      prefix_is_most_recent [OF newest_first_list_reports, of 10 now sid h store]
    unfolding loadReports_recent_def by blast
qed

theorem list_reports_newest_first_witness:
  "map ident (list_reports 5000 1 (Some 1) example_store) = [3, 4, 1] \<and>
   map created (list_reports 5000 1 (Some 1) example_store) = [3000, 2000, 1000] \<and>
   list_all (\<lambda>a. list_all (\<lambda>b. created b \<le> created a)
                     (drop 1 (list_reports 5000 1 (Some 1) example_store)))
            (take 1 (list_reports 5000 1 (Some 1) example_store))"
proof -
  have ids: "map ident (list_reports 5000 1 (Some 1) example_store) = [3, 4, 1]"
    by (simp add: list_reports_def example_store_def in_window_def)
  have times: "map created (list_reports 5000 1 (Some 1) example_store) = [3000, 2000, 1000]"
    by (simp add: list_reports_def example_store_def in_window_def)
  have "\<forall>a \<in> set (take 1 (list_reports 5000 1 (Some 1) example_store)).
      \<forall>b \<in> set (drop 1 (list_reports 5000 1 (Some 1) example_store)).
        created b \<le> created a"
    using list_reports_newest_first [of 5000 1 "Some 1" example_store 1] by blast
  then have "list_all (\<lambda>a. list_all (\<lambda>b. created b \<le> created a)
                     (drop 1 (list_reports 5000 1 (Some 1) example_store)))
            (take 1 (list_reports 5000 1 (Some 1) example_store))"
    unfolding list_all_iff .
  with ids times show ?thesis by blast
qed

section \<open>Properties of the dashboard's status text\<close>

text \<open>
  C10. The status text of \<open>refreshDashboard\<close> is total with the operational text as
  its default: for every value of \<^verbatim>\<open>service.status\<close> the label and class are
  Issues and text-warning exactly when the status is the string issues, Down and
  text-danger exactly when it is the string down, and Operational and text-success for
  every other value, also one outside the three status names.
\<close>

theorem refreshDashboard_statusText_total:
  "((statusLabel (refreshDashboard_statusText s) = ''Issues'' \<and>
     statusClass (refreshDashboard_statusText s) = ''text-warning'') = (s = JString ''issues'')) \<and>
   ((statusLabel (refreshDashboard_statusText s) = ''Down'' \<and>
     statusClass (refreshDashboard_statusText s) = ''text-danger'') = (s = JString ''down'')) \<and>
   ((statusLabel (refreshDashboard_statusText s) = ''Operational'' \<and>
     statusClass (refreshDashboard_statusText s) = ''text-success'')
      = (s \<noteq> JString ''issues'' \<and> s \<noteq> JString ''down'')) \<and>
   statusLabel (refreshDashboard_statusText (JString ''maintenance'')) = ''Operational''"
  by (cases s) (auto simp: refreshDashboard_statusText_def strict_eq_string_def)

end
